theory Spec2Isabelle
  imports
    Main
    "HOL-Library.AList"
    "HOL-Library.Sublist"
    "HOL-Library.Char_ord"
    "HOL-Library.List_Lexorder"
begin

text \<open>
  A shallow embedding of \<^verbatim>\<open>petl/io/json.py\<close>: the readers \<^verbatim>\<open>fromjson\<close> and
  \<^verbatim>\<open>fromdicts\<close> with their views, and the writers \<^verbatim>\<open>tojson\<close> and \<^verbatim>\<open>tojsonarrays\<close>
  with \<^verbatim>\<open>_writejson\<close> and \<^verbatim>\<open>_writeobj\<close> (here \<open>writejson\<close> and \<open>writeobj\<close>, since a
  name cannot start with an underscore). Exceptions are values, a generator is the list
  of rows it yields together with the exception that ends it, and the resources and the
  dictionary shared by reference are explicit state.
\<close>

section \<open>Python values\<close>

text \<open>
  The values that flow through \<^verbatim>\<open>petl/io/json.py\<close>: what \<^verbatim>\<open>json.load\<close> returns
  (\<^verbatim>\<open>None\<close>, booleans, integers, text, lists, dictionaries with text keys) and, as
  \<open>PObj\<close>, any other plain object (a function, an instance of \<^verbatim>\<open>object\<close>),
  identified by a name. Such an object has no \<^verbatim>\<open>keys\<close> attribute, is not iterable, is
  not a container, is hashable and is equal only to itself. Floating-point numbers and
  tuples are not represented. A dictionary is an association list in insertion order;
  a lookup takes the first entry of a key.
\<close>

datatype pyval =
    PNone
  | PBool bool
  | PInt int
  | PStr string
  | PList "pyval list"
  | PDict "(string \<times> pyval) list"
  | PObj string

datatype exn = TypeError | KeyError | IndexError | ValueError | OSError

type_synonym dict = "(string \<times> pyval) list"
type_synonym row = "pyval list"

text \<open>
  Python's \<^verbatim>\<open>==\<close> on these values: \<^verbatim>\<open>True == 1\<close> and \<^verbatim>\<open>False == 0\<close>, lists are
  compared element by element, dictionaries as mappings (the order of the keys does not
  matter). \<open>py_norm\<close> maps a value to the representative of its equality class.
\<close>

primrec py_norm :: "pyval \<Rightarrow> pyval" where
  "py_norm PNone = PNone"
| "py_norm (PBool b) = PInt (if b then 1 else 0)"
| "py_norm (PInt i) = PInt i"
| "py_norm (PStr s) = PStr s"
| "py_norm (PList xs) = PList (map py_norm xs)"
| "py_norm (PDict d) = PDict (sort_key fst (AList.clearjunk (map (map_prod id py_norm) d)))"
| "py_norm (PObj n) = PObj n"

definition py_eq :: "pyval \<Rightarrow> pyval \<Rightarrow> bool" where
  "py_eq a b = (py_norm a = py_norm b)"

text \<open>\<^verbatim>\<open>hasattr(o, 'keys')\<close> and \<^verbatim>\<open>o.keys()\<close>.\<close>

fun has_keys :: "pyval \<Rightarrow> bool" where
  "has_keys (PDict d) = True"
| "has_keys v = False"

fun keys :: "pyval \<Rightarrow> string list" where
  "keys (PDict d) = remdups (map fst d)"
| "keys v = []"

text \<open>
  Iteration (\<^verbatim>\<open>for o in v\<close>, \<^verbatim>\<open>tuple(v)\<close>): a list gives its elements, a dictionary
  its keys, a text its characters; anything else raises \<^verbatim>\<open>TypeError\<close>.
\<close>

fun py_iter :: "pyval \<Rightarrow> exn + pyval list" where
  "py_iter (PList xs) = Inr xs"
| "py_iter (PDict d) = Inr (map PStr (keys (PDict d)))"
| "py_iter (PStr s) = Inr (map (\<lambda>c. PStr [c]) s)"
| "py_iter v = Inl TypeError"

text \<open>Lists and dictionaries are unhashable.\<close>

fun hashable :: "pyval \<Rightarrow> bool" where
  "hashable (PList xs) = False"
| "hashable (PDict d) = False"
| "hashable v = True"

text \<open>\<^verbatim>\<open>f in o\<close>.\<close>

fun py_contains :: "pyval \<Rightarrow> pyval \<Rightarrow> exn + bool" where
  "py_contains (PDict d) f =
     (if hashable f then Inr (case f of PStr s \<Rightarrow> s \<in> set (map fst d) | _ \<Rightarrow> False)
      else Inl TypeError)"
| "py_contains (PList xs) f = Inr (list_ex (\<lambda>x. py_eq x f) xs)"
| "py_contains (PStr s) f = (case f of PStr t \<Rightarrow> Inr (sublist t s) | _ \<Rightarrow> Inl TypeError)"
| "py_contains v f = Inl TypeError"

text \<open>
  \<^verbatim>\<open>o[f]\<close>: a dictionary is looked up by key, a list or a text is indexed by an integer
  (a boolean is an integer; a negative index counts from the end).
\<close>

definition seq_index :: "'a list \<Rightarrow> int \<Rightarrow> exn + 'a" where
  "seq_index xs i =
     (if 0 \<le> i \<and> i < int (length xs) then Inr (xs ! nat i)
      else if i < 0 \<and> 0 \<le> i + int (length xs) then Inr (xs ! nat (i + int (length xs)))
      else Inl IndexError)"

fun as_index :: "pyval \<Rightarrow> int option" where
  "as_index (PInt i) = Some i"
| "as_index (PBool b) = Some (if b then 1 else 0)"
| "as_index v = None"

fun py_getitem :: "pyval \<Rightarrow> pyval \<Rightarrow> exn + pyval" where
  "py_getitem (PDict d) f =
     (if hashable f then
        (case f of
           PStr s \<Rightarrow> (case map_of d s of Some v \<Rightarrow> Inr v | None \<Rightarrow> Inl KeyError)
         | _ \<Rightarrow> Inl KeyError)
      else Inl TypeError)"
| "py_getitem (PList xs) f =
     (case as_index f of Some i \<Rightarrow> seq_index xs i | None \<Rightarrow> Inl TypeError)"
| "py_getitem (PStr s) f =
     (case as_index f of
        Some i \<Rightarrow> (case seq_index s i of Inl e \<Rightarrow> Inl e | Inr c \<Rightarrow> Inr (PStr [c]))
      | None \<Rightarrow> Inl TypeError)"
| "py_getitem v f = Inl TypeError"

section \<open>Header derivation and row projection\<close>

text \<open>
  The block shared, line for line, by \<^verbatim>\<open>JsonView.__iter__\<close> and
  \<^verbatim>\<open>DictsView.__iter__\<close>. A generator is modelled by what a consumer that runs it to
  the end observes: the rows yielded, in order, and the exception that ended the
  iteration, if any.
\<close>

type_synonym rows = "row list \<times> exn option"

text \<open>
  \<^verbatim>\<open>hdr = set()\<close>, then for each \<^verbatim>\<open>o\<close> with a \<^verbatim>\<open>keys\<close> attribute
  \<^verbatim>\<open>hdr |= set(o.keys())\<close>, then \<^verbatim>\<open>hdr = sorted(hdr)\<close>.
\<close>

definition determine_fields :: "pyval list \<Rightarrow> string list" where
  "determine_fields os =
     sorted_list_of_set
       (fold (\<lambda>rec hdr. if has_keys rec then hdr \<union> set (keys rec) else hdr) os {})"

text \<open>\<^verbatim>\<open>o[f] if f in o else None\<close>.\<close>

definition field_or_none :: "pyval \<Rightarrow> pyval \<Rightarrow> exn + pyval" where
  "field_or_none o' f =
     (case py_contains o' f of
        Inl e \<Rightarrow> Inl e
      | Inr True \<Rightarrow> py_getitem o' f
      | Inr False \<Rightarrow> Inr PNone)"

text \<open>\<^verbatim>\<open>tuple(o[f] if f in o else None for f in hdr)\<close>: the first failing field raises.\<close>

fun project :: "pyval \<Rightarrow> pyval list \<Rightarrow> exn + row" where
  "project o' [] = Inr []"
| "project o' (f # fs) =
     (case field_or_none o' f of
        Inl e \<Rightarrow> Inl e
      | Inr v \<Rightarrow> (case project o' fs of Inl e \<Rightarrow> Inl e | Inr vs \<Rightarrow> Inr (v # vs)))"

text \<open>\<^verbatim>\<open>for o in result: row = ...; yield row\<close> over the elements of \<^verbatim>\<open>result\<close>.\<close>

fun data_rows :: "pyval list \<Rightarrow> pyval list \<Rightarrow> rows" where
  "data_rows [] hdr = ([], None)"
| "data_rows (o' # os) hdr =
     (case project o' hdr of
        Inl e \<Rightarrow> ([], Some e)
      | Inr r \<Rightarrow> (case data_rows os hdr of (rs, x) \<Rightarrow> (r # rs, x)))"

text \<open>\<^verbatim>\<open>yield tuple(hdr)\<close> followed by the loop over \<^verbatim>\<open>result\<close>.\<close>

definition header_then_rows :: "pyval list \<Rightarrow> pyval \<Rightarrow> rows" where
  "header_then_rows hdr result =
     (case py_iter result of
        Inl e \<Rightarrow> ([hdr], Some e)
      | Inr os \<Rightarrow> (case data_rows os hdr of (rs, x) \<Rightarrow> (hdr # rs, x)))"

definition iter_records :: "pyval \<Rightarrow> pyval \<Rightarrow> rows" where
  "iter_records result header =
     (if header = PNone then
        (case py_iter result of
           Inl e \<Rightarrow> ([], Some e)
         | Inr os \<Rightarrow> header_then_rows (map PStr (determine_fields os)) result)
      else
        (case py_iter header of
           Inl e \<Rightarrow> ([], Some e)
         | Inr hdr \<Rightarrow> header_then_rows hdr result))"

section \<open>The mapping-sequence reader\<close>

record DictsView =
  dv_dicts :: pyval
  dv_header :: pyval

definition DictsView_init :: "pyval \<Rightarrow> pyval \<Rightarrow> DictsView" where
  "DictsView_init ds header = \<lparr>dv_dicts = ds, dv_header = header\<rparr>"

definition fromdicts :: "pyval \<Rightarrow> pyval \<Rightarrow> DictsView" where
  "fromdicts ds header = DictsView_init ds header"

definition DictsView_iter :: "DictsView \<Rightarrow> rows" where
  "DictsView_iter self = iter_records (dv_dicts self) (dv_header self)"

section \<open>Resources\<close>

text \<open>
  A source is a named byte resource; its content is held as text (the UTF-8 coding of
  \<^verbatim>\<open>io.TextIOWrapper\<close> is not modelled). The world records the resource events in the
  order they happen and every call made to \<^verbatim>\<open>json.load\<close> with the positional and
  keyword arguments it receives.
\<close>

datatype event = Opened string | Wrapped | Detached | Closed string

record world =
  files :: "string \<rightharpoonup> string"
  events :: "event list"
  loads :: "(pyval list \<times> dict) list"

definition emit :: "event \<Rightarrow> world \<Rightarrow> world" where
  "emit e w = w\<lparr>events := events w @ [e]\<rparr>"

text \<open>
  \<^verbatim>\<open>with source.open(mode) as f: body\<close> and \<^verbatim>\<open>try: body finally: fin\<close>. The result of
  the body carries its exception, if it raised one; the exit action runs either way.
\<close>

datatype mode = RB | WB

definition source_open :: "string \<Rightarrow> mode \<Rightarrow> world \<Rightarrow> world" where
  "source_open src m w =
     emit (Opened src) (case m of RB \<Rightarrow> w | WB \<Rightarrow> w\<lparr>files := (files w)(src \<mapsto> [])\<rparr>)"

definition with_open ::
  "string \<Rightarrow> mode \<Rightarrow> (world \<Rightarrow> 'a \<times> world) \<Rightarrow> world \<Rightarrow> 'a \<times> world" where
  "with_open src m body w =
     (case body (source_open src m w) of (r, w') \<Rightarrow> (r, emit (Closed src) w'))"

text \<open>\<^verbatim>\<open>f.write(s)\<close> appends to the resource.\<close>

definition fwrite :: "string \<Rightarrow> string \<Rightarrow> world \<Rightarrow> world" where
  "fwrite src s w =
     w\<lparr>files := (files w)(src \<mapsto> (case files w src of None \<Rightarrow> s | Some t \<Rightarrow> t @ s))\<rparr>"

definition try_finally :: "(world \<Rightarrow> 'a \<times> world) \<Rightarrow> (world \<Rightarrow> world) \<Rightarrow> world \<Rightarrow> 'a \<times> world" where
  "try_finally body fin w = (case body w of (r, w') \<Rightarrow> (r, fin w'))"

section \<open>The JSON-array reader\<close>

text \<open>
  Dictionaries that are shared by reference live in a heap, a list indexed by address.
  \<^verbatim>\<open>d.pop(k, default)\<close> mutates the dictionary at its address.
\<close>

type_synonym addr = nat
type_synonym heap = "dict list"

definition alloc :: "dict \<Rightarrow> heap \<Rightarrow> addr \<times> heap" where
  "alloc d h = (length h, h @ [d])"

definition dict_pop :: "addr \<Rightarrow> string \<Rightarrow> pyval \<Rightarrow> heap \<Rightarrow> pyval \<times> heap" where
  "dict_pop a k dflt h =
     (case map_of (h ! a) k of
        Some v \<Rightarrow> (v, h[a := AList.delete k (h ! a)])
      | None \<Rightarrow> (dflt, h))"

record JsonView =
  jv_source :: string
  jv_args :: "pyval list"
  jv_kwargs :: addr
  jv_missing :: pyval
  jv_header :: pyval

text \<open>
  \<^verbatim>\<open>__init__(self, source, *args, **kwargs)\<close>: the call collects the keyword arguments
  in a fresh dictionary; \<^verbatim>\<open>self.kwargs = kwargs\<close> stores a reference to it, and the two
  \<^verbatim>\<open>pop\<close> calls that follow mutate that same dictionary.
\<close>

definition JsonView_init :: "string \<Rightarrow> pyval list \<Rightarrow> dict \<Rightarrow> heap \<Rightarrow> JsonView \<times> heap" where
  "JsonView_init source args kwargs h =
     (case alloc kwargs h of (kw, h0) \<Rightarrow>
      case dict_pop kw ''missing'' PNone h0 of (m, h1) \<Rightarrow>
      case dict_pop kw ''header'' PNone h1 of (hd', h2) \<Rightarrow>
        (\<lparr>jv_source = source, jv_args = args, jv_kwargs = kw,
          jv_missing = m, jv_header = hd'\<rparr>, h2))"

text \<open>
  \<^verbatim>\<open>read_source_from_arg\<close> is defined in \<^verbatim>\<open>petl.io.sources\<close>; the source argument is
  taken as already resolved to the name of a resource.
\<close>

definition fromjson :: "string \<Rightarrow> pyval list \<Rightarrow> dict \<Rightarrow> heap \<Rightarrow> JsonView \<times> heap" where
  "fromjson source args kwargs h = JsonView_init source args kwargs h"

text \<open>
  \<^verbatim>\<open>json.load\<close> belongs to the standard library; it is a parameter: a function from the
  text of the resource and the arguments of the call to the parsed value or the
  exception it raises.
\<close>

type_synonym loader = "string \<Rightarrow> pyval list \<Rightarrow> dict \<Rightarrow> exn + pyval"

definition json_load :: "loader \<Rightarrow> string \<Rightarrow> pyval list \<Rightarrow> dict \<Rightarrow> world \<Rightarrow> (exn + pyval) \<times> world" where
  "json_load load content args kwargs w =
     (load content args kwargs, w\<lparr>loads := loads w @ [(args, kwargs)]\<rparr>)"

definition JsonView_body :: "loader \<Rightarrow> heap \<Rightarrow> JsonView \<Rightarrow> string \<Rightarrow> world \<Rightarrow> rows \<times> world" where
  "JsonView_body load h self content w =
     (case json_load load content (jv_args self) (h ! jv_kwargs self) w of
        (Inl e, w') \<Rightarrow> (([], Some e), w')
      | (Inr result, w') \<Rightarrow> (iter_records result (jv_header self), w'))"

text \<open>
  \<open>py2\<close> is the flag \<^verbatim>\<open>PY2\<close>. Opening a resource that does not exist raises
  \<^verbatim>\<open>OSError\<close> before anything is acquired.
\<close>

definition JsonView_iter :: "bool \<Rightarrow> loader \<Rightarrow> heap \<Rightarrow> JsonView \<Rightarrow> world \<Rightarrow> rows \<times> world" where
  "JsonView_iter py2 load h self w =
     (case files w (jv_source self) of
        None \<Rightarrow> (([], Some OSError), w)
      | Some content \<Rightarrow>
          with_open (jv_source self) RB
            (\<lambda>w1. try_finally (JsonView_body load h self content)
                               (\<lambda>w3. if \<not> py2 then emit Detached w3 else w3)
                               (if \<not> py2 then emit Wrapped w1 else w1))
            w)"

section \<open>Tables\<close>

text \<open>
  Modelled from the spec: the class \<^verbatim>\<open>Table\<close> is defined in \<^verbatim>\<open>petl.util.base\<close>,
  outside the sources at hand. A table produces a sequence of rows; the first row is the header, a
  sequence of field names (text), and the rows after it are the data rows.
  \<open>list_rows\<close> is \<^verbatim>\<open>list(table)\<close>.
\<close>

record table =
  thead :: "string list"
  tbody :: "row list"

definition list_rows :: "table \<Rightarrow> row list" where
  "list_rows t = map PStr (thead t) # tbody t"

text \<open>
  Modelled from the spec: \<^verbatim>\<open>data\<close> is defined in \<^verbatim>\<open>petl.util.base\<close>, outside the
  sources at hand. It gives the rows of the table without the header row.
\<close>

definition data :: "table \<Rightarrow> row list" where
  "data t = tl (list_rows t)"

text \<open>
  Modelled from the spec: \<^verbatim>\<open>dicts\<close> (imported as \<^verbatim>\<open>_dicts\<close>) is defined in
  \<^verbatim>\<open>petl.util.base\<close>, outside the sources at hand. It turns every data row (the header excluded) into a mapping from header field to
  row value. The mapping is built as Python's \<^verbatim>\<open>dict\<close> does from a sequence of pairs:
  a later pair replaces the value of an earlier pair with the same key.
\<close>

definition asdict :: "string list \<Rightarrow> row \<Rightarrow> dict" where
  "asdict hdr r = fold (\<lambda>(k, v) d. AList.update k v d) (zip hdr r) []"

definition dicts :: "table \<Rightarrow> pyval list" where
  "dicts t = map (\<lambda>r. PDict (asdict (thead t) r)) (tbody t)"

section \<open>The writers\<close>

text \<open>
  \<^verbatim>\<open>JSONEncoder(*args, **kwargs)\<close> belongs to the standard library; the encoder is a
  parameter. \<^verbatim>\<open>encoder.iterencode(obj)\<close> yields chunks of text and may raise after
  some of them: the encoder maps an object to the chunks it yields and the exception
  that ends the iteration, if any.
\<close>

type_synonym encoder = "pyval \<Rightarrow> string list \<times> exn option"

text \<open>The result of a writer is the exception it raises, \<open>None\<close> when it returns.\<close>

definition writeobj ::
  "encoder \<Rightarrow> pyval \<Rightarrow> string \<Rightarrow> string option \<Rightarrow> string option \<Rightarrow> world \<Rightarrow> exn option \<times> world" where
  "writeobj encoder obj f pfx sfx w =
     (let w1 = (case pfx of None \<Rightarrow> w | Some p \<Rightarrow> fwrite f p w);
          w2 = fold (fwrite f) (fst (encoder obj)) w1
      in case snd (encoder obj) of
           Some e \<Rightarrow> (Some e, w2)
         | None \<Rightarrow> (None, (case sfx of None \<Rightarrow> w2 | Some s \<Rightarrow> fwrite f s w2)))"

text \<open>
  \<^verbatim>\<open>write_source_from_arg\<close> is defined in \<^verbatim>\<open>petl.io.sources\<close>; the source argument is
  taken as already resolved to the name of a resource. Opening it for writing creates
  it empty.
\<close>

definition writejson ::
  "bool \<Rightarrow> encoder \<Rightarrow> string \<Rightarrow> pyval \<Rightarrow> string option \<Rightarrow> string option \<Rightarrow> world \<Rightarrow> exn option \<times> world" where
  "writejson py2 encoder source obj pfx sfx w =
     with_open source WB
       (\<lambda>w1. if py2 then writeobj encoder obj source pfx sfx w1
             else try_finally (writeobj encoder obj source pfx sfx)
                              (emit Detached) (emit Wrapped w1))
       w"

definition tojson ::
  "bool \<Rightarrow> encoder \<Rightarrow> table \<Rightarrow> string \<Rightarrow> string option \<Rightarrow> string option \<Rightarrow> world \<Rightarrow> exn option \<times> world" where
  "tojson py2 encoder t source pfx sfx w =
     writejson py2 encoder source (PList (dicts t)) pfx sfx w"

definition tojsonarrays ::
  "bool \<Rightarrow> encoder \<Rightarrow> table \<Rightarrow> string \<Rightarrow> string option \<Rightarrow> string option \<Rightarrow> bool \<Rightarrow> world \<Rightarrow> exn option \<times> world" where
  "tojsonarrays py2 encoder t source pfx sfx output_header w =
     writejson py2 encoder source
       (PList (map PList (if output_header then list_rows t else data t)))
       pfx sfx w"

section \<open>Example data\<close>

text \<open>
  The table of the docstrings of \<^verbatim>\<open>tojson\<close> and \<^verbatim>\<open>tojsonarrays\<close>, and one instance
  of the two parameters: an encoder that knows the text of the default
  \<^verbatim>\<open>JSONEncoder\<close> for the objects built from that table and for the empty list, and
  raises \<^verbatim>\<open>TypeError\<close> after a first chunk on anything else; a parser that knows three
  documents and raises \<^verbatim>\<open>ValueError\<close> on anything else.
\<close>

definition table1 :: table where
  "table1 = \<lparr>thead = [''foo'', ''bar''],
             tbody = [[PStr ''a'', PInt 1], [PStr ''b'', PInt 2], [PStr ''c'', PInt 2]]\<rparr>"

definition encoder1 :: encoder where
  \<open>encoder1 obj =
     (if obj = PList [] then ([''[]''], None)
      else if obj = PList (dicts table1) then
        ([''['', ''{"foo": "a", "bar": 1}'', '', {"foo": "b", "bar": 2}'',
          '', {"foo": "c", "bar": 2}'', '']''], None)
      else if obj = PList (map PList (data table1)) then
        ([''['', ''["a", 1]'', '', ["b", 2]'', '', ["c", 2]'', '']''], None)
      else if obj = PList (map PList (list_rows table1)) then
        ([''['', ''["foo", "bar"]'', '', ["a", 1]'', '', ["b", 2]'', '', ["c", 2]'', '']''], None)
      else ([''[''], Some TypeError))\<close>

definition loader1 :: loader where
  \<open>loader1 content args kwargs =
     (if content = ''[{"foo": "a", "bar": 1}, {"foo": "b", "bar": 2}, {"foo": "c", "bar": 2}]''
      then Inr (PList [PDict [(''foo'', PStr ''a''), (''bar'', PInt 1)],
                       PDict [(''foo'', PStr ''b''), (''bar'', PInt 2)],
                       PDict [(''foo'', PStr ''c''), (''bar'', PInt 2)]])
      else if content = ''[{"a": 1}, {"b": 2}]''
      then Inr (PList [PDict [(''a'', PInt 1)], PDict [(''b'', PInt 2)]])
      else if content = ''[{"x": 1, "z": 9}]''
      then Inr (PList [PDict [(''x'', PInt 1), (''z'', PInt 9)]])
      else Inl ValueError)\<close>

definition world0 :: world where
  "world0 = \<lparr>files = Map.empty, events = [], loads = []\<rparr>"





section \<open>Keyword arguments of the reader\<close>

lemma delete_filter: "AList.delete k d = filter (\<lambda>(k', v). k' \<noteq> k) d"
  by (induction d) auto

lemma dict_pop_heap:
  "a < length h \<Longrightarrow>
   snd (dict_pop a k dflt h) = h[a := filter (\<lambda>(k', v). k' \<noteq> k) (h ! a)]"
proof (cases "map_of (h ! a) k")
  case None
  assume "a < length h"
  from None have "k \<notin> fst ` set (h ! a)" by (simp add: map_of_eq_None_iff)
  then have "AList.delete k (h ! a) = h ! a" by (rule AList.delete_id)
  then show ?thesis using None by (simp add: dict_pop_def delete_filter [symmetric])
next
  case (Some v)
  then show ?thesis by (simp add: dict_pop_def delete_filter)
qed

lemma dict_pop_value:
  "fst (dict_pop a k dflt h) = (case map_of (h ! a) k of Some v \<Rightarrow> v | None \<Rightarrow> dflt)"
  by (simp add: dict_pop_def split: option.splits)

lemma JsonView_init_fields:
  assumes "JsonView_init source args kwargs h = (self, h')"
  shows "jv_source self = source" and "jv_args self = args" and "jv_kwargs self = length h"
    and "jv_missing self = (case map_of kwargs ''missing'' of Some v \<Rightarrow> v | None \<Rightarrow> PNone)"
    and "jv_header self = (case map_of kwargs ''header'' of Some v \<Rightarrow> v | None \<Rightarrow> PNone)"
    and "h' ! length h = filter (\<lambda>(k, v). k \<noteq> ''missing'' \<and> k \<noteq> ''header'') kwargs"
proof -
  let ?kw = "length h" and ?h0 = "h @ [kwargs]"
  obtain m h1 where p1: "dict_pop ?kw ''missing'' PNone ?h0 = (m, h1)"
    by fastforce
  obtain hd' h2 where p2: "dict_pop ?kw ''header'' PNone h1 = (hd', h2)"
    by fastforce
  have self: "self = \<lparr>jv_source = source, jv_args = args, jv_kwargs = ?kw,
                         jv_missing = m, jv_header = hd'\<rparr>"
    and h': "h' = h2"
    using assms p1 p2 by (simp_all add: JsonView_init_def alloc_def)
  have m: "m = (case map_of kwargs ''missing'' of Some v \<Rightarrow> v | None \<Rightarrow> PNone)"
    using dict_pop_value [of ?kw "''missing''" PNone ?h0] p1 by simp
  have h1: "h1 = ?h0[?kw := filter (\<lambda>(k, v). k \<noteq> ''missing'') kwargs]"
    using dict_pop_heap [of ?kw ?h0 "''missing''" PNone] p1 by simp
  have "map_of (filter (\<lambda>(k, v). k \<noteq> ''missing'') kwargs) ''header'' = map_of kwargs ''header''"
    by (simp add: delete_filter [symmetric] AList.delete_conv)
  then have hd: "hd' = (case map_of kwargs ''header'' of Some v \<Rightarrow> v | None \<Rightarrow> PNone)"
    using dict_pop_value [of ?kw "''header''" PNone h1] p2 h1 by simp
  have h2: "h2 = h1[?kw := filter (\<lambda>(k, v). k \<noteq> ''header'') (h1 ! ?kw)]"
    using dict_pop_heap [of ?kw h1 "''header''" PNone] p2 h1 by simp
  have filt: "filter (\<lambda>(k, v). k \<noteq> ''header'') (filter (\<lambda>(k, v). k \<noteq> ''missing'') kwargs)
      = filter (\<lambda>(k, v). k \<noteq> ''missing'' \<and> k \<noteq> ''header'') kwargs"
    by (induction kwargs) auto
  show "jv_source self = source" "jv_args self = args" "jv_kwargs self = length h"
    using self by simp_all
  show "jv_missing self = (case map_of kwargs ''missing'' of Some v \<Rightarrow> v | None \<Rightarrow> PNone)"
    using self m by simp
  show "jv_header self = (case map_of kwargs ''header'' of Some v \<Rightarrow> v | None \<Rightarrow> PNone)"
    using self hd by simp
  show "h' ! length h = filter (\<lambda>(k, v). k \<noteq> ''missing'' \<and> k \<noteq> ''header'') kwargs"
    using h' h2 h1 filt by simp
qed

lemma JsonView_iter_loads:
  "files w (jv_source self) = Some content \<Longrightarrow>
   loads (snd (JsonView_iter py2 load h self w)) = loads w @ [(jv_args self, h ! jv_kwargs self)]"
  by (simp add: JsonView_iter_def with_open_def try_finally_def JsonView_body_def json_load_def
      source_open_def emit_def split: sum.splits prod.splits)

text \<open>
  C10. \<^verbatim>\<open>fromjson\<close> takes \<^verbatim>\<open>missing\<close> and \<^verbatim>\<open>header\<close> out of the keyword arguments
  (each defaults to \<^verbatim>\<open>None\<close>); the one call of \<^verbatim>\<open>json.load\<close> that an iteration makes
  receives the positional arguments as given and the keyword arguments without these
  two, the others unchanged and in their order.
\<close>

theorem reader_options_not_forwarded:
  assumes "fromjson source args kwargs h = (self, h')"
    and "files w source = Some content"
  shows "jv_missing self = (case map_of kwargs ''missing'' of Some v \<Rightarrow> v | None \<Rightarrow> PNone)
       \<and> jv_header self = (case map_of kwargs ''header'' of Some v \<Rightarrow> v | None \<Rightarrow> PNone)
       \<and> loads (snd (JsonView_iter py2 load h' self w))
           = loads w @ [(args, filter (\<lambda>(k, v). k \<noteq> ''missing'' \<and> k \<noteq> ''header'') kwargs)]"
proof -
  have init: "JsonView_init source args kwargs h = (self, h')"
    using assms(1) by (simp add: fromjson_def)
  have "files w (jv_source self) = Some content"
    using assms(2) JsonView_init_fields(1) [OF init] by simp
  then have "loads (snd (JsonView_iter py2 load h' self w))
      = loads w @ [(jv_args self, h' ! jv_kwargs self)]"
    by (rule JsonView_iter_loads)
  then show ?thesis
    using JsonView_init_fields [OF init] by simp
qed

theorem reader_options_not_forwarded_witness:
  "loads (snd (JsonView_iter False loader1
       (snd (fromjson ''f'' [PObj ''cls'']
               [(''missing'', PInt 0), (''object_hook'', PObj ''hook''),
                (''header'', PList [PStr ''x''])] []))
       (fst (fromjson ''f'' [PObj ''cls'']
               [(''missing'', PInt 0), (''object_hook'', PObj ''hook''),
                (''header'', PList [PStr ''x''])] []))
       (world0\<lparr>files := [''f'' \<mapsto> ''[]'']\<rparr>)))
   = [([PObj ''cls''], [(''object_hook'', PObj ''hook'')])]"
  using reader_options_not_forwarded
    [where source = "''f''" and args = "[PObj ''cls'']"
       and kwargs = "[(''missing'', PInt 0), (''object_hook'', PObj ''hook''),
                      (''header'', PList [PStr ''x''])]"
       and h = "[]"
       and self = "fst (fromjson ''f'' [PObj ''cls'']
                          [(''missing'', PInt 0), (''object_hook'', PObj ''hook''),
                           (''header'', PList [PStr ''x''])] [])"
       and h' = "snd (fromjson ''f'' [PObj ''cls'']
                        [(''missing'', PInt 0), (''object_hook'', PObj ''hook''),
                         (''header'', PList [PStr ''x''])] [])"
       and w = "world0\<lparr>files := [''f'' \<mapsto> ''[]'']\<rparr>"
       and content = "''[]''" and ?py2.0 = False and load = loader1]
  by (simp add: world0_def)

lemma JsonView_iter_rows:
  "files w (jv_source self) = Some content \<Longrightarrow>
   load content (jv_args self) (h ! jv_kwargs self) = Inr result \<Longrightarrow>
   fst (JsonView_iter py2 load h self w) = iter_records result (jv_header self)"
  by (simp add: JsonView_iter_def with_open_def try_finally_def JsonView_body_def json_load_def)

lemma fromjson_rows:
  assumes "fromjson source args kwargs h = (self, h')"
    and "files w source = Some content"
    and "load content args (filter (\<lambda>(k, v). k \<noteq> ''missing'' \<and> k \<noteq> ''header'') kwargs)
           = Inr result"
  shows "fst (JsonView_iter py2 load h' self w)
     = iter_records result (case map_of kwargs ''header'' of Some v \<Rightarrow> v | None \<Rightarrow> PNone)"
proof -
  have init: "JsonView_init source args kwargs h = (self, h')"
    using assms(1) by (simp add: fromjson_def)
  have "fst (JsonView_iter py2 load h' self w) = iter_records result (jv_header self)"
    using assms(2,3) JsonView_init_fields [OF init] by (intro JsonView_iter_rows) simp_all
  then show ?thesis
    using JsonView_init_fields(5) [OF init] by simp
qed

section \<open>Header derivation\<close>

lemma fold_keys_union:
  "fold (\<lambda>rec hdr. if has_keys rec then hdr \<union> set (keys rec) else hdr) os A
     = A \<union> (\<Union>d \<in> {d. PDict d \<in> set os}. set (map fst d))"
proof (induction os arbitrary: A)
  case Nil
  show ?case by simp
next
  case (Cons x xs)
  show ?case
  proof (cases x)
    case (PDict d)
    have "{d'. PDict d' \<in> set (x # xs)} = insert d {d'. PDict d' \<in> set xs}"
      using PDict by auto
    then show ?thesis using PDict Cons.IH by auto
  qed (use Cons.IH in auto)
qed

lemma determine_fields_eq:
  "determine_fields os = sorted_list_of_set (\<Union>d \<in> {d. PDict d \<in> set os}. set (map fst d))"
  by (simp add: determine_fields_def fold_keys_union)

lemma header_then_rows_first:
  "\<exists>rs x. header_then_rows hdr result = (hdr # rs, x)"
  by (auto simp: header_then_rows_def split: sum.splits prod.splits)

text \<open>
  C1. When no header is given, the first row that either reader yields is the
  lexicographically sorted union of the keys of the mapping entries of the record
  sequence; an entry that is not a mapping contributes no key. Text is ordered by
  character code, a proper prefix before its extensions.
\<close>

theorem derived_header_sorted_union:
  assumes "py_iter result = Inr os"
  shows "(\<exists>rs x. DictsView_iter (fromdicts result PNone)
            = (map PStr (sorted_list_of_set (\<Union>d \<in> {d. PDict d \<in> set os}. set (map fst d))) # rs, x))
       \<and> (fromjson source args kwargs h = (self, h')
            \<and> (map_of kwargs ''header'' = None \<or> map_of kwargs ''header'' = Some PNone)
            \<and> files w source = Some content
            \<and> load content args (filter (\<lambda>(k, v). k \<noteq> ''missing'' \<and> k \<noteq> ''header'') kwargs)
                = Inr result
          \<longrightarrow> (\<exists>rs x. fst (JsonView_iter py2 load h' self w)
            = (map PStr (sorted_list_of_set (\<Union>d \<in> {d. PDict d \<in> set os}. set (map fst d))) # rs, x)))"
proof -
  let ?hdr = "map PStr (sorted_list_of_set (\<Union>d \<in> {d. PDict d \<in> set os}. set (map fst d)))"
  have rec: "\<exists>rs x. iter_records result PNone = (?hdr # rs, x)"
    using assms header_then_rows_first [of ?hdr result]
    by (simp add: iter_records_def determine_fields_eq)
  have a: "\<exists>rs x. DictsView_iter (fromdicts result PNone) = (?hdr # rs, x)"
    using rec by (simp add: DictsView_iter_def fromdicts_def DictsView_init_def)
  have b: "\<exists>rs x. fst (JsonView_iter py2 load h' self w) = (?hdr # rs, x)"
    if "fromjson source args kwargs h = (self, h')"
      and "map_of kwargs ''header'' = None \<or> map_of kwargs ''header'' = Some PNone"
      and "files w source = Some content"
      and "load content args (filter (\<lambda>(k, v). k \<noteq> ''missing'' \<and> k \<noteq> ''header'') kwargs)
             = Inr result"
    using fromjson_rows [where load = load and ?py2.0 = py2, OF that(1,3,4)] that(2) rec by auto
  show ?thesis using a b by blast
qed

theorem derived_header_sorted_union_witness:
  "(\<exists>rs x. DictsView_iter (fromdicts
       (PList [PDict [(''a'', PInt 1), (''b'', PInt 2)], PStr ''x'',
               PDict [(''b'', PInt 3), (''c'', PInt 4)]]) PNone)
      = ([PStr ''a'', PStr ''b'', PStr ''c''] # rs, x))
   \<and> (\<exists>rs x. fst (JsonView_iter False
         (\<lambda>c a k. Inr (PList [PDict [(''a'', PInt 1), (''b'', PInt 2)], PStr ''x'',
                              PDict [(''b'', PInt 3), (''c'', PInt 4)]]))
         [[]]
         \<lparr>jv_source = ''f'', jv_args = [], jv_kwargs = 0, jv_missing = PNone, jv_header = PNone\<rparr>
         (world0\<lparr>files := [''f'' \<mapsto> ''x'']\<rparr>))
      = ([PStr ''a'', PStr ''b'', PStr ''c''] # rs, x))"
  using derived_header_sorted_union
    [where result = "PList [PDict [(''a'', PInt 1), (''b'', PInt 2)], PStr ''x'',
                            PDict [(''b'', PInt 3), (''c'', PInt 4)]]"
       and os = "[PDict [(''a'', PInt 1), (''b'', PInt 2)], PStr ''x'',
                  PDict [(''b'', PInt 3), (''c'', PInt 4)]]"
       and source = "''f''" and args = "[]" and kwargs = "[]" and h = "[]"
       and w = "world0\<lparr>files := [''f'' \<mapsto> ''x'']\<rparr>"
       and self = "\<lparr>jv_source = ''f'', jv_args = [], jv_kwargs = 0,
                    jv_missing = PNone, jv_header = PNone\<rparr>"
       and h' = "[[]]"
       and content = "''x''" and ?py2.0 = False
       and load = "\<lambda>c a k. Inr (PList [PDict [(''a'', PInt 1), (''b'', PInt 2)], PStr ''x'',
                                        PDict [(''b'', PInt 3), (''c'', PInt 4)]])"]
  by (simp add: Collect_disj_eq world0_def fromjson_def JsonView_init_def alloc_def dict_pop_def)

section \<open>Empty input\<close>

lemma iter_records_empty:
  assumes "py_iter result = Inr []"
  shows "iter_records result header =
     (if header = PNone then ([[]], None)
      else case py_iter header of Inl e \<Rightarrow> ([], Some e) | Inr hdr \<Rightarrow> ([hdr], None))"
  using assms
  by (simp add: iter_records_def header_then_rows_def determine_fields_def split: sum.splits)

text \<open>
  C7. Over an empty record sequence either reader yields exactly one row and raises
  nothing: the empty tuple when no header is given, the given header otherwise.
\<close>

theorem empty_records_header_only:
  assumes "py_iter result = Inr []"
  shows "DictsView_iter (fromdicts result PNone) = ([[]], None)
       \<and> (py_iter header = Inr hdr \<longrightarrow> DictsView_iter (fromdicts result header) = ([hdr], None))
       \<and> (fromjson source args kwargs h = (self, h')
            \<and> files w source = Some content
            \<and> load content args (filter (\<lambda>(k, v). k \<noteq> ''missing'' \<and> k \<noteq> ''header'') kwargs)
                = Inr result
          \<longrightarrow> (map_of kwargs ''header'' = None \<or> map_of kwargs ''header'' = Some PNone
                \<longrightarrow> fst (JsonView_iter py2 load h' self w) = ([[]], None))
            \<and> (map_of kwargs ''header'' = Some header \<and> py_iter header = Inr hdr
                \<longrightarrow> fst (JsonView_iter py2 load h' self w) = ([hdr], None)))"
proof -
  have a: "DictsView_iter (fromdicts result PNone) = ([[]], None)"
    using iter_records_empty [OF assms, of PNone]
    by (simp add: DictsView_iter_def fromdicts_def DictsView_init_def)
  have b: "DictsView_iter (fromdicts result header) = ([hdr], None)"
    if "py_iter header = Inr hdr"
    using iter_records_empty [OF assms, of header] that
    by (auto simp: DictsView_iter_def fromdicts_def DictsView_init_def)
  have c: "fst (JsonView_iter py2 load h' self w)
      = iter_records result (case map_of kwargs ''header'' of Some v \<Rightarrow> v | None \<Rightarrow> PNone)"
    if "fromjson source args kwargs h = (self, h')"
      and "files w source = Some content"
      and "load content args (filter (\<lambda>(k, v). k \<noteq> ''missing'' \<and> k \<noteq> ''header'') kwargs)
             = Inr result"
    using fromjson_rows [where load = load and ?py2.0 = py2, OF that] .
  have d: "iter_records result PNone = ([[]], None)"
    using iter_records_empty [OF assms, of PNone] by simp
  have e: "iter_records result header = ([hdr], None)" if "py_iter header = Inr hdr"
    using iter_records_empty [OF assms, of header] that by auto
  show ?thesis
    using a b c d e by auto
qed

theorem empty_records_header_only_witness:
  "DictsView_iter (fromdicts (PList []) PNone) = ([[]], None)
   \<and> DictsView_iter (fromdicts (PList []) (PList [PStr ''x'', PStr ''y'']))
       = ([[PStr ''x'', PStr ''y'']], None)
   \<and> fst (JsonView_iter False (\<lambda>c a k. Inr (PList [])) [[]]
         \<lparr>jv_source = ''f'', jv_args = [], jv_kwargs = 0, jv_missing = PNone,
           jv_header = PList [PStr ''x'', PStr ''y'']\<rparr>
         (world0\<lparr>files := [''f'' \<mapsto> ''[]'']\<rparr>))
       = ([[PStr ''x'', PStr ''y'']], None)"
  using empty_records_header_only
    [where result = "PList []" and header = "PList [PStr ''x'', PStr ''y'']"
       and hdr = "[PStr ''x'', PStr ''y'']"
       and source = "''f''" and args = "[]" and h = "[]"
       and kwargs = "[(''header'', PList [PStr ''x'', PStr ''y''])]"
       and w = "world0\<lparr>files := [''f'' \<mapsto> ''[]'']\<rparr>"
       and self = "\<lparr>jv_source = ''f'', jv_args = [], jv_kwargs = 0, jv_missing = PNone,
                    jv_header = PList [PStr ''x'', PStr ''y'']\<rparr>"
       and h' = "[[]]"
       and content = "''[]''" and ?py2.0 = False
       and load = "\<lambda>c a k. Inr (PList [])"]
  by (simp add: world0_def fromjson_def JsonView_init_def alloc_def dict_pop_def)

section \<open>The missing-value option\<close>

text \<open>
  \<^verbatim>\<open>self.missing\<close> is written by \<^verbatim>\<open>__init__\<close> and read nowhere: an iteration does the
  same whatever the field holds.
\<close>

lemma missing_never_read:
  "JsonView_iter py2 load h (self\<lparr>jv_missing := m\<rparr>) w = JsonView_iter py2 load h self w"
proof -
  have "JsonView_body load h (self\<lparr>jv_missing := m\<rparr>) c = JsonView_body load h self c" for c
    by (rule ext) (simp add: JsonView_body_def split: prod.splits sum.splits)
  then show ?thesis
    by (simp add: JsonView_iter_def split: option.splits)
qed

lemma absent_field_is_None:
  "s \<notin> fst ` set d \<Longrightarrow> field_or_none (PDict d) (PStr s) = Inr PNone"
  by (simp add: field_or_none_def)

text \<open>
  C2. The reader takes the option \<^verbatim>\<open>missing\<close> out of the keyword arguments and keeps
  it in \<^verbatim>\<open>self.missing\<close>, but a field that a record lacks is filled with the literal
  \<^verbatim>\<open>None\<close>: reading \<^verbatim>\<open>[{"a": 1}, {"b": 2}]\<close> with \<^verbatim>\<open>missing=0\<close> gives the rows
  \<^verbatim>\<open>(1, None)\<close> and \<^verbatim>\<open>(None, 2)\<close>, not \<^verbatim>\<open>(1, 0)\<close> and \<^verbatim>\<open>(0, 2)\<close>.
\<close>

theorem missing_option_ignored:
  "(case fromjson ''example.json'' [] [(''missing'', PInt 0)] [] of
      (self, h) \<Rightarrow>
        (jv_missing self,
         fst (JsonView_iter False loader1 h self
                (world0\<lparr>files := [''example.json'' \<mapsto> ''[{\"a\": 1}, {\"b\": 2}]'']\<rparr>))))
   = (PInt 0,
      ([[PStr ''a'', PStr ''b''], [PInt 1, PNone], [PNone, PInt 2]], None))"
  by (simp add: fromjson_def JsonView_init_def alloc_def dict_pop_def JsonView_iter_def
      with_open_def try_finally_def JsonView_body_def json_load_def source_open_def emit_def
      loader1_def world0_def iter_records_def header_then_rows_def determine_fields_def
      field_or_none_def)

text \<open>
  C3. With the header \<^verbatim>\<open>["x", "y"]\<close> and the record \<^verbatim>\<open>{"x": 1, "z": 9}\<close> the header is
  yielded as given and \<^verbatim>\<open>z\<close> is dropped, but with \<^verbatim>\<open>missing=0\<close> the field \<^verbatim>\<open>y\<close> is
  filled with \<^verbatim>\<open>None\<close> and not with the sentinel: the row is \<^verbatim>\<open>(1, None)\<close>.
\<close>

theorem explicit_header_missing_option_ignored:
  "(case fromjson ''example.json'' []
           [(''header'', PList [PStr ''x'', PStr ''y'']), (''missing'', PInt 0)] [] of
      (self, h) \<Rightarrow>
        (jv_missing self,
         fst (JsonView_iter False loader1 h self
                (world0\<lparr>files := [''example.json'' \<mapsto> ''[{\"x\": 1, \"z\": 9}]'']\<rparr>))))
   = (PInt 0, ([[PStr ''x'', PStr ''y''], [PInt 1, PNone]], None))"
  by (simp add: fromjson_def JsonView_init_def alloc_def dict_pop_def JsonView_iter_def
      with_open_def try_finally_def JsonView_body_def json_load_def source_open_def emit_def
      loader1_def world0_def iter_records_def header_then_rows_def field_or_none_def)

section \<open>Resource events\<close>

lemma events_fwrite: "events (fwrite f s w) = events w"
  by (simp add: fwrite_def)

lemma events_fold_fwrite: "events (fold (fwrite f) chunks w) = events w"
  by (induction chunks arbitrary: w) (simp_all add: events_fwrite)

lemma events_writeobj: "events (snd (writeobj encoder obj f pfx sfx w)) = events w"
  by (simp add: writeobj_def Let_def events_fwrite events_fold_fwrite split: option.splits)

lemma fst_writeobj: "fst (writeobj encoder obj f pfx sfx w) = snd (encoder obj)"
  by (simp add: writeobj_def Let_def split: option.splits)

lemma events_source_open: "events (source_open src m w) = events w @ [Opened src]"
  by (simp add: source_open_def emit_def split: mode.splits)

lemma events_writejson:
  "events (snd (writejson py2 encoder src obj pfx sfx w))
     = events w @ (if py2 then [Opened src, Closed src]
                   else [Opened src, Wrapped, Detached, Closed src])"
proof -
  obtain r w' where wo: "writeobj encoder obj src pfx sfx (source_open src WB w) = (r, w')"
    by fastforce
  obtain r2 w2 where wo2:
    "writeobj encoder obj src pfx sfx (emit Wrapped (source_open src WB w)) = (r2, w2)"
    by fastforce
  have e1: "events w' = events w @ [Opened src]"
    using events_writeobj [of encoder obj src pfx sfx "source_open src WB w"] wo
    by (simp add: events_source_open)
  have e2: "events w2 = events w @ [Opened src, Wrapped]"
    using events_writeobj [of encoder obj src pfx sfx "emit Wrapped (source_open src WB w)"] wo2
    by (simp add: events_source_open emit_def)
  show ?thesis
    using wo wo2 e1 e2
    by (simp add: writejson_def with_open_def try_finally_def emit_def)
qed

lemma fst_writejson:
  "fst (writejson py2 encoder src obj pfx sfx w) = snd (encoder obj)"
proof -
  have "fst (writeobj encoder obj src pfx sfx w1) = snd (encoder obj)" for w1
    by (rule fst_writeobj)
  then show ?thesis
    by (simp add: writejson_def with_open_def try_finally_def split: prod.splits)
       (metis fst_conv)
qed

lemma events_JsonView_iter:
  "events (snd (JsonView_iter py2 load h self w))
     = events w @ (if files w (jv_source self) = None then []
                   else if py2 then [Opened (jv_source self), Closed (jv_source self)]
                   else [Opened (jv_source self), Wrapped, Detached, Closed (jv_source self)])"
  by (auto simp: JsonView_iter_def with_open_def try_finally_def JsonView_body_def json_load_def
      source_open_def emit_def split: sum.splits prod.splits option.splits)

lemma JsonView_iter_parse_error:
  "files w (jv_source self) = Some content \<Longrightarrow>
   load content (jv_args self) (h ! jv_kwargs self) = Inl e \<Longrightarrow>
   fst (JsonView_iter py2 load h self w) = ([], Some e)"
  by (simp add: JsonView_iter_def with_open_def try_finally_def JsonView_body_def json_load_def)

text \<open>
  C6. Whatever the parser and the encoder do, an iteration of the reader run to its
  end and a call of either writer open the byte resource once, put the text wrapper
  over it once (when \<^verbatim>\<open>PY2\<close> is false; there is no wrapper otherwise), detach the
  wrapper and close the resource, in this order and with nothing left open. An
  exception raised by \<^verbatim>\<open>json.load\<close> or by the encoder is the one the caller sees. A
  resource that cannot be opened for reading is never acquired.
\<close>

theorem resources_released_on_every_exit:
  "events (snd (JsonView_iter py2 load h self w))
     = events w @ (if files w (jv_source self) = None then []
                   else if py2 then [Opened (jv_source self), Closed (jv_source self)]
                   else [Opened (jv_source self), Wrapped, Detached, Closed (jv_source self)])
   \<and> (files w (jv_source self) = Some content
        \<and> load content (jv_args self) (h ! jv_kwargs self) = Inl e
      \<longrightarrow> fst (JsonView_iter py2 load h self w) = ([], Some e))
   \<and> events (snd (tojson py2 encoder t src pfx sfx w))
       = events w @ (if py2 then [Opened src, Closed src]
                     else [Opened src, Wrapped, Detached, Closed src])
   \<and> fst (tojson py2 encoder t src pfx sfx w) = snd (encoder (PList (dicts t)))
   \<and> events (snd (tojsonarrays py2 encoder t src pfx sfx output_header w))
       = events w @ (if py2 then [Opened src, Closed src]
                     else [Opened src, Wrapped, Detached, Closed src])
   \<and> fst (tojsonarrays py2 encoder t src pfx sfx output_header w)
       = snd (encoder (PList (map PList (if output_header then list_rows t else data t))))"
  using events_JsonView_iter [of py2 load h self w]
    JsonView_iter_parse_error [of w self content load h e py2]
  by (simp add: tojson_def tojsonarrays_def events_writejson fst_writejson)

theorem resources_released_on_every_exit_witness:
  "events (snd (JsonView_iter False (\<lambda>c a k. Inl ValueError) [[]]
       \<lparr>jv_source = ''example.json'', jv_args = [], jv_kwargs = 0, jv_missing = PNone,
         jv_header = PNone\<rparr>
       (world0\<lparr>files := [''example.json'' \<mapsto> ''[{'']\<rparr>)))
     = [Opened ''example.json'', Wrapped, Detached, Closed ''example.json'']
   \<and> fst (JsonView_iter False (\<lambda>c a k. Inl ValueError) [[]]
       \<lparr>jv_source = ''example.json'', jv_args = [], jv_kwargs = 0, jv_missing = PNone,
         jv_header = PNone\<rparr>
       (world0\<lparr>files := [''example.json'' \<mapsto> ''[{'']\<rparr>))
     = ([], Some ValueError)
   \<and> events (snd (tojson False encoder1
       \<lparr>thead = [''foo''], tbody = [[PObj ''object()'']]\<rparr> ''example.json'' None None world0))
     = [Opened ''example.json'', Wrapped, Detached, Closed ''example.json'']
   \<and> fst (tojson False encoder1
       \<lparr>thead = [''foo''], tbody = [[PObj ''object()'']]\<rparr> ''example.json'' None None world0)
     = Some TypeError"
  using resources_released_on_every_exit
    [where ?py2.0 = False and load = "\<lambda>c a k. Inl ValueError" and h = "[[]]"
       and self = "\<lparr>jv_source = ''example.json'', jv_args = [], jv_kwargs = 0,
                    jv_missing = PNone, jv_header = PNone\<rparr>"
       and w = "world0\<lparr>files := [''example.json'' \<mapsto> ''[{'']\<rparr>"
       and content = "''[{''" and e = ValueError]
    resources_released_on_every_exit
    [where ?py2.0 = False and encoder = encoder1
       and t = "\<lparr>thead = [''foo''], tbody = [[PObj ''object()'']]\<rparr>"
       and src = "''example.json''" and pfx = None and sfx = None and w = world0]
  by (simp add: world0_def encoder1_def table1_def dicts_def asdict_def data_def list_rows_def)

section \<open>What the writers write\<close>

lemma files_fold_fwrite:
  "files w f = Some t0 \<Longrightarrow> files (fold (fwrite f) chunks w) f = Some (t0 @ concat chunks)"
  by (induction chunks arbitrary: w t0) (simp_all add: fwrite_def)

lemma files_writeobj:
  assumes "files w f = Some t0"
  shows "files (snd (writeobj encoder obj f pfx sfx w)) f
     = Some (t0 @ (case pfx of None \<Rightarrow> [] | Some p \<Rightarrow> p) @ concat (fst (encoder obj))
             @ (case snd (encoder obj) of
                  Some e \<Rightarrow> []
                | None \<Rightarrow> (case sfx of None \<Rightarrow> [] | Some s \<Rightarrow> s)))"
proof -
  let ?w1 = "case pfx of None \<Rightarrow> w | Some p \<Rightarrow> fwrite f p w"
  have w1: "files ?w1 f = Some (t0 @ (case pfx of None \<Rightarrow> [] | Some p \<Rightarrow> p))"
    using assms by (simp add: fwrite_def split: option.splits)
  have w2: "files (fold (fwrite f) (fst (encoder obj)) ?w1) f
      = Some ((t0 @ (case pfx of None \<Rightarrow> [] | Some p \<Rightarrow> p)) @ concat (fst (encoder obj)))"
    using w1 by (rule files_fold_fwrite)
  show ?thesis
    using w2 by (simp add: writeobj_def Let_def fwrite_def split: option.splits)
qed

lemma files_emit: "files (emit e w) = files w"
  by (simp add: emit_def)

lemma files_source_open_wb: "files (source_open src WB w) src = Some []"
  by (simp add: source_open_def emit_def)

lemma files_writejson:
  "files (snd (writejson py2 encoder src obj pfx sfx w)) src
     = Some ((case pfx of None \<Rightarrow> [] | Some p \<Rightarrow> p) @ concat (fst (encoder obj))
             @ (case snd (encoder obj) of
                  Some e \<Rightarrow> []
                | None \<Rightarrow> (case sfx of None \<Rightarrow> [] | Some s \<Rightarrow> s)))"
proof -
  have a: "files (source_open src WB w) src = Some []"
    by (rule files_source_open_wb)
  have b: "files (emit Wrapped (source_open src WB w)) src = Some []"
    by (simp add: files_emit files_source_open_wb)
  show ?thesis
    using files_writeobj [OF a, of encoder obj pfx sfx] files_writeobj [OF b, of encoder obj pfx sfx]
    by (simp add: writejson_def with_open_def try_finally_def files_emit split: prod.splits)
       (metis snd_conv)
qed

text \<open>
  C9. When the encoder does not raise, the resource holds, after either writer, the
  prefix, then the chunks of the encoder in the order it yields them, then the suffix,
  and nothing else; a prefix or suffix that is \<^verbatim>\<open>None\<close> adds nothing.
\<close>

theorem prefix_suffix_wrap:
  "(snd (encoder (PList (dicts t))) = None
      \<longrightarrow> files (snd (tojson py2 encoder t src pfx sfx w)) src
           = Some ((case pfx of None \<Rightarrow> [] | Some p \<Rightarrow> p)
                   @ concat (fst (encoder (PList (dicts t))))
                   @ (case sfx of None \<Rightarrow> [] | Some s \<Rightarrow> s)))
   \<and> (snd (encoder (PList (map PList (if output_header then list_rows t else data t)))) = None
      \<longrightarrow> files (snd (tojsonarrays py2 encoder t src pfx sfx output_header w)) src
           = Some ((case pfx of None \<Rightarrow> [] | Some p \<Rightarrow> p)
                   @ concat (fst (encoder (PList (map PList
                        (if output_header then list_rows t else data t)))))
                   @ (case sfx of None \<Rightarrow> [] | Some s \<Rightarrow> s)))"
  by (simp add: tojson_def tojsonarrays_def files_writejson)

theorem prefix_suffix_wrap_witness:
  \<open>files (snd (tojson False encoder1 table1 ''example.json'' (Some ''/*x*/'') (Some ''/*y*/'')
                 world0)) ''example.json''
     = Some ''/*x*/[{"foo": "a", "bar": 1}, {"foo": "b", "bar": 2}, {"foo": "c", "bar": 2}]/*y*/''
   \<and> files (snd (tojsonarrays False encoder1 table1 ''example.json'' (Some ''/*x*/'') None False
                 world0)) ''example.json''
     = Some ''/*x*/[["a", 1], ["b", 2], ["c", 2]]''\<close>
  using prefix_suffix_wrap
    [where encoder = encoder1 and t = table1 and output_header = False and ?py2.0 = False
       and src = "''example.json''" and pfx = "Some ''/*x*/''" and sfx = "Some ''/*y*/''"
       and w = world0]
    prefix_suffix_wrap
    [where encoder = encoder1 and t = table1 and output_header = False and ?py2.0 = False
       and src = "''example.json''" and pfx = "Some ''/*x*/''" and sfx = None
       and w = world0]
  by (simp add: encoder1_def table1_def dicts_def asdict_def data_def list_rows_def)

text \<open>
  C8. For a table without data rows both writers (the array writer with
  \<^verbatim>\<open>output_header\<close> false) hand the empty list to the encoder; with an encoder that
  renders the empty list as \<^verbatim>\<open>[]\<close>, as \<^verbatim>\<open>JSONEncoder\<close> does, the resource holds
  \<^verbatim>\<open>[]\<close> between the prefix and the suffix.
\<close>

theorem empty_table_written_as_empty_array:
  assumes "tbody t = []" and "encoder (PList []) = ([''[]''], None)"
  shows "files (snd (tojson py2 encoder t src pfx sfx w)) src
           = Some ((case pfx of None \<Rightarrow> [] | Some p \<Rightarrow> p) @ ''[]''
                   @ (case sfx of None \<Rightarrow> [] | Some s \<Rightarrow> s))
       \<and> files (snd (tojsonarrays py2 encoder t src pfx sfx False w)) src
           = Some ((case pfx of None \<Rightarrow> [] | Some p \<Rightarrow> p) @ ''[]''
                   @ (case sfx of None \<Rightarrow> [] | Some s \<Rightarrow> s))"
  using assms
  by (simp add: tojson_def tojsonarrays_def files_writejson dicts_def data_def list_rows_def)

theorem empty_table_written_as_empty_array_witness:
  "files (snd (tojson False encoder1 \<lparr>thead = [''foo'', ''bar''], tbody = []\<rparr> ''example.json''
                 (Some ''/*x*/'') (Some ''/*y*/'') world0)) ''example.json''
     = Some ''/*x*/[]/*y*/''
   \<and> files (snd (tojsonarrays False encoder1 \<lparr>thead = [''foo'', ''bar''], tbody = []\<rparr>
                 ''example.json'' (Some ''/*x*/'') (Some ''/*y*/'') False world0)) ''example.json''
     = Some ''/*x*/[]/*y*/''"
  using empty_table_written_as_empty_array
    [where t = "\<lparr>thead = [''foo'', ''bar''], tbody = []\<rparr>" and encoder = encoder1
       and ?py2.0 = False and src = "''example.json''" and pfx = "Some ''/*x*/''"
       and sfx = "Some ''/*y*/''" and w = world0]
  by (simp add: encoder1_def)

text \<open>
  C4. With \<^verbatim>\<open>output_header\<close> false the array writer encodes the list that holds one
  array for each data row, in the order of the rows, and no header; with
  \<^verbatim>\<open>output_header\<close> true it encodes the list whose first array is the header of the
  table, field by field, followed by the same arrays of the data rows.
\<close>

theorem array_writer_rows:
  "tojsonarrays py2 encoder t src pfx sfx False w
     = writejson py2 encoder src (PList (map PList (tbody t))) pfx sfx w
   \<and> tojsonarrays py2 encoder t src pfx sfx True w
     = writejson py2 encoder src (PList (PList (map PStr (thead t)) # map PList (tbody t))) pfx sfx w
   \<and> files (snd (tojsonarrays py2 encoder t src None None False w)) src
     = Some (concat (fst (encoder (PList (map PList (tbody t))))))
   \<and> files (snd (tojsonarrays py2 encoder t src None None True w)) src
     = Some (concat (fst (encoder (PList (PList (map PStr (thead t)) # map PList (tbody t))))))"
  by (simp add: tojsonarrays_def files_writejson data_def list_rows_def split: option.splits)

section \<open>Writing objects and reading them back\<close>











end
